theory Spec2Isabelle
  imports Complex_Main
begin

section \<open>Python values\<close>

text \<open>
  A Python \<open>str\<close> is a sequence of Unicode code points, so it is modelled as a list of
  natural numbers: slicing and \<open>len\<close> count code points, and the ellipsis U+2026 of the
  console previews is one element. \<open>ascii\<close> turns a literal into such a sequence.
\<close>

type_synonym str = "nat list"

definition ascii :: "string \<Rightarrow> str" where
  "ascii s = map of_char s"

text \<open>
  The exceptions that can leave the script. \<open>Exit c\<close> is \<open>typer.Exit(c)\<close>, which ends the
  process with status \<open>c\<close>. \<open>KeyError\<close> is a failed dictionary subscript, \<open>ValueError\<close>
  and \<open>TypeError\<close> come from numpy, \<open>UnicodeDecodeError\<close> and \<open>OSError\<close> from examining
  or reading a file, \<open>MarkupError\<close> from the console when it is given markup it cannot
  render, and \<open>LibraryError\<close> is whatever the external model library raises.
\<close>

datatype error =
    Exit int
  | KeyError
  | ValueError
  | TypeError
  | UnicodeDecodeError
  | OSError
  | MarkupError
  | LibraryError string

datatype pyval = PyNone | PyStr str

text \<open>Keyword arguments of \<open>model.generate\<close>, in the order the call site writes them.\<close>

type_synonym kwargs = "(string \<times> pyval) list"

subsection \<open>\<open>str.strip()\<close>\<close>

text \<open>The code points for which \<open>str.isspace()\<close> holds; \<open>strip()\<close> removes them at both ends.\<close>

definition isspace :: "nat \<Rightarrow> bool" where
  "isspace c \<longleftrightarrow>
     (9 \<le> c \<and> c \<le> 13) \<or> (28 \<le> c \<and> c \<le> 32) \<or> c = 133 \<or> c = 160 \<or> c = 5760 \<or>
     (8192 \<le> c \<and> c \<le> 8202) \<or> c = 8232 \<or> c = 8233 \<or> c = 8239 \<or> c = 8287 \<or> c = 12288"

definition strip :: "str \<Rightarrow> str" where
  "strip s = rev (dropWhile isspace (rev (dropWhile isspace s)))"

subsection \<open>\<open>pathlib.Path\<close> on a POSIX system\<close>

definition sep :: nat where
  "sep = 47"

definition dot :: nat where
  "dot = 46"

text \<open>\<open>s.split('/')\<close>.\<close>

fun split_sep :: "str \<Rightarrow> str list" where
  "split_sep [] = [[]]"
| "split_sep (c # cs) =
     (if c = sep then [] # split_sep cs
      else (case split_sep cs of [] \<Rightarrow> [[c]] | p # ps \<Rightarrow> (c # p) # ps))"

text \<open>
  A parsed path: its root (empty, one slash, or two slashes when the string starts with
  exactly two) and its components. Empty components and \<open>.\<close> are dropped by the parser.
\<close>

datatype path = PosixPath (anchor: str) (parts: "str list")

definition root_of :: "str \<Rightarrow> str" where
  "root_of val =
     (let k = length (takeWhile (\<lambda>c. c = sep) val)
      in if k = 0 then [] else if k = 2 then [sep, sep] else [sep])"

definition Path :: "str \<Rightarrow> path" where
  "Path val = PosixPath (root_of val) (filter (\<lambda>x. x \<noteq> [] \<and> x \<noteq> [dot]) (split_sep val))"

text \<open>\<open>p.name\<close>: the last component, or the empty string when there is none.\<close>

definition name :: "path \<Rightarrow> str" where
  "name p = (case parts p of [] \<Rightarrow> [] | _ # _ \<Rightarrow> last (parts p))"

text \<open>\<open>s.rfind(c)\<close>, with \<open>None\<close> for Python's \<open>-1\<close>.\<close>

fun rfind :: "nat \<Rightarrow> str \<Rightarrow> nat option" where
  "rfind c [] = None"
| "rfind c (x # xs) =
     (case rfind c xs of
        Some i \<Rightarrow> Some (Suc i)
      | None \<Rightarrow> if x = c then Some 0 else None)"

text \<open>
  \<open>p.suffix\<close>: with \<open>i = name.rfind('.')\<close>, the slice \<open>name[i:]\<close> when
  \<open>0 < i < len(name) - 1\<close>, and the empty string otherwise.
\<close>

definition suffix :: "path \<Rightarrow> str" where
  "suffix p =
     (let nm = name p
      in case rfind dot nm of
           None \<Rightarrow> []
         | Some i \<Rightarrow> if 0 < i \<and> i < length nm - 1 then drop i nm else [])"

fun join_sep :: "str list \<Rightarrow> str" where
  "join_sep [] = []"
| "join_sep [x] = x"
| "join_sep (x # y # ys) = x @ sep # join_sep (y # ys)"

text \<open>\<open>str(p)\<close>.\<close>

definition str_path :: "path \<Rightarrow> str" where
  "str_path p =
     (if anchor p = [] \<and> parts p = [] then [dot] else anchor p @ join_sep (parts p))"

subsection \<open>numpy arrays\<close>

text \<open>
  An array is its shape and its elements in row-major order. The element type is left
  open: the script never looks at a sample.
\<close>

record 's ndarray =
  shape :: "nat list"
  data :: "'s list"

text \<open>
  \<open>np.concatenate(arrays)\<close> along axis 0. It raises \<open>ValueError\<close> for an empty sequence,
  for a zero-dimensional first array, for arrays of different rank and for arrays whose
  shapes differ outside axis 0. In row-major order, joining along axis 0 appends the
  elements.
\<close>

definition np_concatenate :: "'s ndarray list \<Rightarrow> error + 's ndarray" where
  "np_concatenate arrays =
     (case arrays of
        [] \<Rightarrow> Inl ValueError
      | a # rest \<Rightarrow>
          if shape a = [] then Inl ValueError
          else if list_ex (\<lambda>b. length (shape b) \<noteq> length (shape a)) rest then Inl ValueError
          else if list_ex (\<lambda>b. tl (shape b) \<noteq> tl (shape a)) rest then Inl ValueError
          else Inr \<lparr>shape = sum_list (map (\<lambda>b. hd (shape b)) arrays) # tl (shape a),
                    data = concat (map data arrays)\<rparr>)"

text \<open>\<open>len(a)\<close>: the first dimension; a zero-dimensional array has no length.\<close>

definition py_len :: "'s ndarray \<Rightarrow> error + nat" where
  "py_len a = (case shape a of [] \<Rightarrow> Inl TypeError | n # _ \<Rightarrow> Inr n)"

section \<open>The world outside the script\<close>

text \<open>
  A file holds text (what \<open>read_text()\<close> returns for it), the sound that \<open>sf.write\<close> stored
  (sample rate and frames), bytes that do not decode as text, or it may not be opened
  for reading. Reading a sound file as text is taken to fail like any other binary
  file. Paths are identified as the parser normalises them; links, \<open>..\<close> and the working
  directory are outside the model.

  The filesystem answers for every path: nothing is there (\<open>None\<close>), a directory or a
  file is there, or the path is \<open>Barred\<close>: \<open>os.stat\<close> raises an \<open>OSError\<close> other than the
  four that pathlib takes for absence, as it does for a name that is too long or below
  a directory that may not be searched.
\<close>

datatype 's content = Text str | Sound nat "'s ndarray" | Opaque | Unreadable

datatype 's node = Directory | File "'s content" | Barred

type_synonym 's filesystem = "path \<Rightarrow> 's node option"

text \<open>
  \<open>p.is_file()\<close>: pathlib answers \<open>False\<close> for a missing path and passes every other
  \<open>OSError\<close> of \<open>os.stat\<close> on.
\<close>

definition is_file :: "'s filesystem \<Rightarrow> path \<Rightarrow> error + bool" where
  "is_file fsys p =
     (case fsys p of
        Some (File _) \<Rightarrow> Inr True
      | Some Barred \<Rightarrow> Inl OSError
      | _ \<Rightarrow> Inr False)"

definition read_text :: "'s filesystem \<Rightarrow> path \<Rightarrow> error + str" where
  "read_text fsys p =
     (case fsys p of
        Some (File (Text s)) \<Rightarrow> Inr s
      | Some (File Unreadable) \<Rightarrow> Inl OSError
      | Some (File _) \<Rightarrow> Inl UnicodeDecodeError
      | _ \<Rightarrow> Inl OSError)"

text \<open>
  What the script does to the outside, oldest first. The two \<open>time.perf_counter()\<close>
  reads are \<open>TimerStart\<close> (\<open>t0 = ...\<close>) and \<open>TimerStop\<close> (\<open>elapsed = ... - t0\<close>); the value
  of \<open>elapsed\<close> is a wall-clock measurement and is not part of the model, the place of the
  two reads among the other events is. \<open>Saved\<close> is the final console line; it carries the
  output path and the exact quotient that the line prints rounded to one decimal.
\<close>

datatype event =
    Print str
  | Status str
  | StatusDone
  | LoadModel str
  | TimerStart
  | Generate kwargs
  | NextChunk
  | TimerStop
  | Concatenate
  | SfWrite path nat
  | Saved path rat

record 's world =
  fs :: "'s filesystem"
  trace :: "event list"

definition emit :: "event \<Rightarrow> 's world \<Rightarrow> 's world" where
  "emit e w = w\<lparr>trace := trace w @ [e]\<rparr>"

text \<open>
  One step of the loop over the generator returned by \<open>model.generate\<close>: it yields a
  result whose \<open>audio\<close> is the given array, or it raises, be it in the generator or in
  taking the result's audio as an array. A model handle is what its \<open>generate\<close> yields for
  given keyword arguments. The generator is finite, and generation itself is taken to
  leave the files alone.
\<close>

datatype 's gen_item = Yield "'s ndarray" | Raise string

type_synonym 's model = "kwargs \<Rightarrow> 's gen_item list"

text \<open>
  What \<open>sf.write\<close> does with a path in a given filesystem: it writes the file, it raises
  with the filesystem as it was, or it raises after the file was created or truncated
  and leaves some contents there.
\<close>

datatype 's write_outcome = Written | Refused error | Damaged error "'s content"

text \<open>
  The host and the libraries: \<open>platform.machine()\<close>, \<open>mlx_audio.tts.utils.load_model\<close>,
  \<open>soundfile.write\<close>, and the two parts of the console's markup renderer that are taken
  as given: \<open>Style.normalize\<close>, and whether the parameters of an \<open>@\<close> tag evaluate as
  a Python literal.
\<close>

record 's env =
  machine :: str
  mlx_load_model :: "str \<Rightarrow> error + 's model"
  soundfile_write :: "path \<Rightarrow> 's ndarray \<Rightarrow> nat \<Rightarrow> 's filesystem \<Rightarrow> 's write_outcome"
  style_normalize :: "str \<Rightarrow> str"
  meta_ok :: "str \<Rightarrow> bool"

text \<open>Sequencing of steps that may raise: the first error ends the run.\<close>

definition and_then ::
  "('w \<Rightarrow> (error + 'a) \<times> 'w) \<Rightarrow> ('a \<Rightarrow> 'w \<Rightarrow> (error + 'b) \<times> 'w) \<Rightarrow> 'w \<Rightarrow> (error + 'b) \<times> 'w" where
  "and_then m f w = (case m w of (Inl e, w') \<Rightarrow> (Inl e, w') | (Inr x, w') \<Rightarrow> f x w')"

definition pure :: "error + 'a \<Rightarrow> 'w \<Rightarrow> (error + 'a) \<times> 'w" where
  "pure r w = (r, w)"

subsection \<open>Console markup\<close>

text \<open>
  The console finds tags with the pattern \<open>(\\*)\[([a-z#/@][^[]*?)]\<close>: an opening
  bracket, a lower-case letter or one of \<open>#\<close>, \<open>/\<close>, \<open>@\<close>, then everything up to the next
  closing bracket, with no opening bracket in between. \<open>close_at\<close> splits what follows
  the first character of a tag at that closing bracket.
\<close>

definition tag_start :: "nat \<Rightarrow> bool" where
  "tag_start c \<longleftrightarrow> (97 \<le> c \<and> c \<le> 122) \<or> c = 35 \<or> c = 47 \<or> c = 64"

fun close_at :: "str \<Rightarrow> (str \<times> str) option" where
  "close_at [] = None"
| "close_at (c # cs) =
     (if c = 93 then Some ([], cs)
      else if c = 91 then None
      else (case close_at cs of None \<Rightarrow> None | Some (t, rest) \<Rightarrow> Some (c # t, rest)))"

text \<open>A tag: the text before the first \<open>=\<close> is its name, the text after it its parameters.\<close>

datatype tag = Tag (tag_name: str) (parameters: "str option")

definition tag_of :: "str \<Rightarrow> tag" where
  "tag_of tag_text =
     Tag (takeWhile (\<lambda>c. c \<noteq> 61) tag_text)
         (case dropWhile (\<lambda>c. c \<noteq> 61) tag_text of [] \<Rightarrow> None | _ # ps \<Rightarrow> Some ps)"

text \<open>
  The tags of a text, left to right. \<open>k\<close> counts the backslashes just before the current
  position; a match that begins with an odd number of them is an escaped bracket and
  not a tag.
\<close>

function tags_from :: "nat \<Rightarrow> str \<Rightarrow> tag list" where
  "tags_from k [] = []"
| "tags_from k (c # cs) =
     (if c = 92 then tags_from (Suc k) cs
      else if c = 91 then
        (case cs of
           [] \<Rightarrow> []
         | d # ds \<Rightarrow>
             if tag_start d then
               (case close_at ds of
                  None \<Rightarrow> tags_from 0 cs
                | Some (t, rest) \<Rightarrow>
                    (if even k then [tag_of (d # t)] else []) @ tags_from 0 rest)
             else tags_from 0 cs)
      else tags_from 0 cs)"
  by pat_completeness auto
termination
proof -
  have shorter: "length rest < length ds" if "close_at ds = Some (t, rest)"
    for ds :: str and t rest
    using that by (induction ds arbitrary: t) (auto split: if_splits option.splits)
  show ?thesis
    by (relation "measure (\<lambda>(k, s). length s)") (auto dest: shorter)
qed

definition startswith :: "nat \<Rightarrow> str \<Rightarrow> bool" where
  "startswith c s = (case s of [] \<Rightarrow> False | x # _ \<Rightarrow> x = c)"

text \<open>\<open>pop_style\<close>: remove the topmost open tag with the given name; the top is the head.\<close>

fun pop_style :: "str \<Rightarrow> tag list \<Rightarrow> (tag \<times> tag list) option" where
  "pop_style style_name [] = None"
| "pop_style style_name (t # stack) =
     (if tag_name t = style_name then Some (t, stack)
      else (case pop_style style_name stack of
              None \<Rightarrow> None
            | Some (found, stack') \<Rightarrow> Some (found, t # stack')))"

text \<open>Closing an \<open>@\<close> tag evaluates its parameters, when it has any.\<close>

definition meta_fails :: "'s env \<Rightarrow> tag \<Rightarrow> bool" where
  "meta_fails env open_tag \<longleftrightarrow>
     startswith 64 (tag_name open_tag) \<and>
     (case parameters open_tag of None \<Rightarrow> False | Some ps \<Rightarrow> ps \<noteq> [] \<and> \<not> meta_ok env ps)"

text \<open>
  The loop of \<open>rich.markup.render\<close> over the tags, with the stack of open tags; the
  result says whether it raises \<open>MarkupError\<close>. A closing tag with a name must match an
  open tag, one without a name closes the last open tag, and there must be one.
\<close>

fun render_tags :: "'s env \<Rightarrow> tag list \<Rightarrow> tag list \<Rightarrow> bool" where
  "render_tags env stack [] = False"
| "render_tags env stack (t # ts) =
     (if startswith 47 (tag_name t) then
        (let style_name = strip (tl (tag_name t))
         in case (if style_name \<noteq> [] then pop_style (style_normalize env style_name) stack
                  else (case stack of [] \<Rightarrow> None | t0 # below \<Rightarrow> Some (t0, below))) of
              None \<Rightarrow> True
            | Some (open_tag, stack') \<Rightarrow> meta_fails env open_tag \<or> render_tags env stack' ts)
      else render_tags env (Tag (style_normalize env (tag_name t)) (parameters t) # stack) ts)"

definition markup_error :: "'s env \<Rightarrow> str \<Rightarrow> bool" where
  "markup_error env markup = render_tags env [] (tags_from 0 markup)"

text \<open>\<open>console.print\<close> and the start of \<open>console.status\<close> render their text as markup.\<close>

definition console_print :: "'s env \<Rightarrow> str \<Rightarrow> 's world \<Rightarrow> (error + unit) \<times> 's world" where
  "console_print env s w =
     (if markup_error env s then (Inl MarkupError, w) else (Inr (), emit (Print s) w))"

definition console_status :: "'s env \<Rightarrow> str \<Rightarrow> 's world \<Rightarrow> (error + unit) \<times> 's world" where
  "console_status env s w =
     (if markup_error env s then (Inl MarkupError, w) else (Inr (), emit (Status s) w))"

text \<open>
  \<open>sf.write(file, data, samplerate)\<close>: on success the path holds the sound, replacing
  whatever it held.
\<close>

definition sf_write ::
  "'s env \<Rightarrow> path \<Rightarrow> 's ndarray \<Rightarrow> nat \<Rightarrow> 's world \<Rightarrow> (error + unit) \<times> 's world" where
  "sf_write env file audio samplerate w =
     (let w1 = emit (SfWrite file samplerate) w
      in case soundfile_write env file audio samplerate (fs w) of
           Written \<Rightarrow> (Inr (), w1\<lparr>fs := (fs w)(file \<mapsto> File (Sound samplerate audio))\<rparr>)
         | Refused e \<Rightarrow> (Inl e, w1)
         | Damaged e c \<Rightarrow> (Inl e, w1\<lparr>fs := (fs w)(file \<mapsto> File c)\<rparr>))"

section \<open>The script\<close>

definition SAMPLE_RATE :: nat where
  "SAMPLE_RATE = 24000"

definition MODELS :: "(str \<times> (str \<times> str) list) list" where
  "MODELS =
     [(ascii ''clone'',
         [(ascii ''0.6B'', ascii ''mlx-community/Qwen3-TTS-12Hz-0.6B-Base-bf16''),
          (ascii ''1.7B'', ascii ''mlx-community/Qwen3-TTS-12Hz-1.7B-Base-bf16'')]),
      (ascii ''custom'',
         [(ascii ''0.6B'', ascii ''mlx-community/Qwen3-TTS-12Hz-0.6B-CustomVoice-bf16''),
          (ascii ''1.7B'', ascii ''mlx-community/Qwen3-TTS-12Hz-1.7B-CustomVoice-bf16'')]),
      (ascii ''design'',
         [(ascii ''1.7B'', ascii ''mlx-community/Qwen3-TTS-12Hz-1.7B-VoiceDesign-bf16'')])]"

datatype ModelSize = small | large

fun value_of :: "ModelSize \<Rightarrow> str" where
  "value_of small = ascii ''0.6B''"
| "value_of large = ascii ''1.7B''"

text \<open>\<open>d[k]\<close> on a dictionary, and the double subscript \<open>MODELS[mode][size]\<close>.\<close>

definition subscript :: "('k \<times> 'v) list \<Rightarrow> 'k \<Rightarrow> error + 'v" where
  "subscript d k = (case map_of d k of None \<Rightarrow> Inl KeyError | Some v \<Rightarrow> Inr v)"

definition lookup :: "str \<Rightarrow> str \<Rightarrow> error + str" where
  "lookup mode size' =
     (case subscript MODELS mode of Inl e \<Rightarrow> Inl e | Inr d \<Rightarrow> subscript d size')"

definition platform_warning :: str where
  "platform_warning =
     ascii ''[bold yellow]Warning:[/] This script is optimized for Apple Silicon (arm64). '' @
     ascii ''Performance may be degraded on this platform.''"

definition check_apple_silicon :: "'s env \<Rightarrow> 's world \<Rightarrow> (error + unit) \<times> 's world" where
  "check_apple_silicon env w =
     (if machine env \<notin> set [ascii ''arm64'', ascii ''aarch64'']
      then console_print env platform_warning w
      else (Inr (), w))"

definition read_file_or_string :: "'s filesystem \<Rightarrow> str \<Rightarrow> error + str" where
  "read_file_or_string fsys val =
     (let p = Path val
      in if suffix p = ascii ''.txt''
         then (case is_file fsys p of
                 Inl e \<Rightarrow> Inl e
               | Inr found \<Rightarrow>
                   if found
                   then (case read_text fsys p of Inl e \<Rightarrow> Inl e | Inr s \<Rightarrow> Inr (strip s))
                   else Inr val)
         else Inr val)"

definition ellipsis :: str where
  "ellipsis = [8230]"

text \<open>
  The status display is left when its block is left, also by an exception; it is never
  entered when its text does not render.
\<close>

definition load_model :: "'s env \<Rightarrow> str \<Rightarrow> 's world \<Rightarrow> (error + 's model) \<times> 's world" where
  "load_model env model_id =
     and_then (console_status env (ascii ''[bold green]Loading model'' @ ellipsis)) (\<lambda>_ w1.
       (mlx_load_model env model_id, emit StatusDone (emit (LoadModel model_id) w1)))"

text \<open>
  The \<open>for\<close> loop over the generator, appending each chunk to \<open>audio_chunks\<close>;
  \<open>np.array(result.audio, copy=False)\<close> is the array that was yielded.
\<close>

fun consume ::
  "'s gen_item list \<Rightarrow> 's ndarray list \<Rightarrow> 's world \<Rightarrow> (error + 's ndarray list) \<times> 's world" where
  "consume [] audio_chunks w = (Inr audio_chunks, w)"
| "consume (Yield a # rest) audio_chunks w = consume rest (audio_chunks @ [a]) (emit NextChunk w)"
| "consume (Raise e # rest) audio_chunks w = (Inl (LibraryError e), w)"

text \<open>
  The final console line is \<open>[bold]Saved:[/]\<close>, the output path, and in parentheses the
  two durations with one decimal between fixed words. What follows the path holds no
  bracket and no backslash, so the tags of the line are the tags of \<open>saved_markup\<close>.
\<close>

definition saved_markup :: "path \<Rightarrow> str" where
  "saved_markup output = ascii ''[bold]Saved:[/] '' @ str_path output"

definition print_saved :: "'s env \<Rightarrow> path \<Rightarrow> rat \<Rightarrow> 's world \<Rightarrow> (error + unit) \<times> 's world" where
  "print_saved env output duration w =
     (if markup_error env (saved_markup output) then (Inl MarkupError, w)
      else (Inr (), emit (Saved output duration) w))"

definition generate_and_save ::
  "'s env \<Rightarrow> 's model \<Rightarrow> path \<Rightarrow> kwargs \<Rightarrow> 's world \<Rightarrow> (error + unit) \<times> 's world" where
  "generate_and_save env model output gen_kwargs =
     and_then (console_status env (ascii ''[bold green]Generating audio'' @ ellipsis)) (\<lambda>_ w1.
       (let w2 = emit TimerStart w1;
            w3 = emit (Generate gen_kwargs) w2
        in case consume (model gen_kwargs) [] w3 of
             (Inl e, w4) \<Rightarrow> (Inl e, emit StatusDone w4)
           | (Inr audio_chunks, w4) \<Rightarrow>
               (let w5 = emit StatusDone (emit TimerStop w4)
                in if audio_chunks = []
                   then and_then
                          (console_print env (ascii ''[bold red]Error:[/] No audio generated.''))
                          (\<lambda>_. pure (Inl (Exit 1))) w5
                   else (case np_concatenate audio_chunks of
                           Inl e \<Rightarrow> (Inl e, emit Concatenate w5)
                         | Inr audio \<Rightarrow>
                             and_then (sf_write env output audio SAMPLE_RATE) (\<lambda>_.
                             and_then (pure (py_len audio)) (\<lambda>n.
                               print_saved env output (of_nat n / of_nat SAMPLE_RATE)))
                               (emit Concatenate w5)))))"

text \<open>\<open>s[:80]\<close> followed by the ellipsis when \<open>len(s) > 80\<close>.\<close>

definition preview :: "str \<Rightarrow> str" where
  "preview s = take 80 s @ (if 80 < length s then ellipsis else [])"

text \<open>The console lines that carry text of the user.\<close>

definition not_found_line :: "path \<Rightarrow> str" where
  "not_found_line ref_audio =
     ascii ''[bold red]Error:[/] Reference audio not found: '' @ str_path ref_audio"

definition voice_line :: "str \<Rightarrow> str" where
  "voice_line voice_desc = ascii ''Voice: [dim]'' @ preview voice_desc @ ascii ''[/]''"

definition instruct_line :: "str \<Rightarrow> str" where
  "instruct_line instruct_text =
     ascii ''Instruct: [dim]'' @ preview instruct_text @ ascii ''[/]''"

definition custom_mode_line :: "str \<Rightarrow> str \<Rightarrow> str" where
  "custom_mode_line model_id speaker =
     ascii ''Mode [bold]custom[/] | model [bold]'' @ model_id @
     ascii ''[/] | speaker [bold]'' @ speaker @ ascii ''[/]''"

definition clone ::
  "'s env \<Rightarrow> str \<Rightarrow> path \<Rightarrow> str \<Rightarrow> path \<Rightarrow> ModelSize \<Rightarrow> 's world \<Rightarrow> (error + unit) \<times> 's world" where
  "clone env input_text ref_audio ref_text output model_size =
     and_then (check_apple_silicon env) (\<lambda>_.
     and_then (\<lambda>w. (is_file (fs w) ref_audio, w)) (\<lambda>found.
       if \<not> found
       then
         and_then (console_print env (not_found_line ref_audio)) (\<lambda>_.
           pure (Inl (Exit 1)))
       else
         and_then (pure (lookup (ascii ''clone'') (value_of model_size))) (\<lambda>model_id.
         and_then (console_print env
                     (ascii ''Mode [bold]clone[/] | model [bold]'' @ model_id @ ascii ''[/]'')) (\<lambda>_.
         and_then (load_model env model_id) (\<lambda>model.
           generate_and_save env model output
             [(''text'', PyStr input_text),
              (''ref_audio'', PyStr (str_path ref_audio)),
              (''ref_text'', PyStr ref_text)])))))"

definition design ::
  "'s env \<Rightarrow> str \<Rightarrow> str \<Rightarrow> str \<Rightarrow> path \<Rightarrow> 's world \<Rightarrow> (error + unit) \<times> 's world" where
  "design env input_text voice language output =
     and_then (check_apple_silicon env) (\<lambda>_.
     and_then (\<lambda>w. (read_file_or_string (fs w) voice, w)) (\<lambda>voice_desc.
     and_then (pure (lookup (ascii ''design'') (ascii ''1.7B''))) (\<lambda>model_id.
     and_then (console_print env
                 (ascii ''Mode [bold]design[/] | model [bold]'' @ model_id @ ascii ''[/]'')) (\<lambda>_.
     and_then (console_print env (voice_line voice_desc)) (\<lambda>_.
     and_then (load_model env model_id) (\<lambda>model.
       generate_and_save env model output
         [(''text'', PyStr input_text),
          (''instruct'', PyStr voice_desc),
          (''lang_code'', PyStr language)]))))))"

text \<open>
  \<open>instruct_text\<close> of the custom command: \<open>None\<close> unless \<open>instruct\<close> is truthy, that is,
  given and not the empty string.
\<close>

definition instruct_text_of ::
  "'s env \<Rightarrow> str option \<Rightarrow> 's world \<Rightarrow> (error + pyval) \<times> 's world" where
  "instruct_text_of env instruct =
     (case instruct of
        None \<Rightarrow> pure (Inr PyNone)
      | Some s \<Rightarrow>
          if s = [] then pure (Inr PyNone)
          else
            and_then (\<lambda>w. (read_file_or_string (fs w) s, w)) (\<lambda>instruct_text.
            and_then (console_print env (instruct_line instruct_text)) (\<lambda>_.
              pure (Inr (PyStr instruct_text)))))"

definition custom ::
  "'s env \<Rightarrow> str \<Rightarrow> str \<Rightarrow> str option \<Rightarrow> str \<Rightarrow> path \<Rightarrow> ModelSize \<Rightarrow> 's world \<Rightarrow>
     (error + unit) \<times> 's world" where
  "custom env input_text speaker instruct language output model_size =
     and_then (check_apple_silicon env) (\<lambda>_.
     and_then (pure (lookup (ascii ''custom'') (value_of model_size))) (\<lambda>model_id.
     and_then (console_print env (custom_mode_line model_id speaker)) (\<lambda>_.
     and_then (instruct_text_of env instruct) (\<lambda>instruct_text.
     and_then (load_model env model_id) (\<lambda>model.
       generate_and_save env model output
         [(''text'', PyStr input_text),
          (''voice'', PyStr speaker),
          (''instruct'', instruct_text),
          (''lang_code'', PyStr language)])))))"

section \<open>Notions used in the statements\<close>

text \<open>The chunks a generator yields before it stops, and the message of its failure, if any.\<close>

fun yielded :: "'s gen_item list \<Rightarrow> 's ndarray list" where
  "yielded [] = []"
| "yielded (Yield a # rest) = a # yielded rest"
| "yielded (Raise e # rest) = []"

fun first_failure :: "'s gen_item list \<Rightarrow> string option" where
  "first_failure [] = None"
| "first_failure (Yield a # rest) = first_failure rest"
| "first_failure (Raise e # rest) = Some e"

text \<open>What the platform check prints on a given host.\<close>

definition warning_events :: "'s env \<Rightarrow> event list" where
  "warning_events env =
     (if machine env \<in> set [ascii ''arm64'', ascii ''aarch64''] then []
      else [Print platform_warning])"

text \<open>The identifiers handed to the loader and the keyword arguments handed to generation.\<close>

fun loaded_ids :: "event list \<Rightarrow> str list" where
  "loaded_ids [] = []"
| "loaded_ids (LoadModel i # es) = i # loaded_ids es"
| "loaded_ids (_ # es) = loaded_ids es"

fun generate_calls :: "event list \<Rightarrow> kwargs list" where
  "generate_calls [] = []"
| "generate_calls (Generate k # es) = k # generate_calls es"
| "generate_calls (_ # es) = generate_calls es"

text \<open>A status display or a call of the loader.\<close>

fun is_loader_event :: "event \<Rightarrow> bool" where
  "is_loader_event (LoadModel _) = True"
| "is_loader_event (Status _) = True"
| "is_loader_event _ = False"

text \<open>The steps of the pipeline whose order is in question: timer, chunks, join, write.\<close>

fun is_step :: "event \<Rightarrow> bool" where
  "is_step TimerStart = True"
| "is_step NextChunk = True"
| "is_step TimerStop = True"
| "is_step Concatenate = True"
| "is_step (SfWrite _ _) = True"
| "is_step _ = False"

definition pipeline_steps :: "event list \<Rightarrow> event list" where
  "pipeline_steps es = filter is_step es"

text \<open>
  Modelled from the spec: the order of steps 1 to 6 of the pipeline's algorithm as the
  specification lists them for \<open>n\<close> chunks: start the timer, consume the chunks,
  concatenate, stop the timer, write the file at 24000 Hz.
\<close>

definition spec_step_order :: "nat \<Rightarrow> path \<Rightarrow> event list" where
  "spec_step_order n output =
     [TimerStart] @ replicate n NextChunk @ [Concatenate, TimerStop, SfWrite output 24000]"

text \<open>A step is blind to the trace when its result and its files do not depend on it.\<close>

definition blind :: "('s world \<Rightarrow> (error + 'a) \<times> 's world) \<Rightarrow> bool" where
  "blind p \<longleftrightarrow>
     (\<forall>w t. fst (p (w\<lparr>trace := t\<rparr>)) = fst (p w) \<and>
            fs (snd (p (w\<lparr>trace := t\<rparr>))) = fs (snd (p w)))"

section \<open>Example inputs\<close>

definition chunk_a :: "int ndarray" where
  "chunk_a = \<lparr>shape = [2], data = [1, 2]\<rparr>"

definition chunk_b :: "int ndarray" where
  "chunk_b = \<lparr>shape = [1], data = [3]\<rparr>"


definition two_chunks :: "int model" where
  "two_chunks kw = [Yield chunk_a, Yield chunk_b]"

definition no_chunks :: "int model" where
  "no_chunks kw = []"



definition out_wav :: path where
  "out_wav = PosixPath [] [ascii ''output.wav'']"

definition ref_wav :: path where
  "ref_wav = PosixPath [] [ascii ''ref.wav'']"

definition blank :: "int world" where
  "blank = \<lparr>fs = (\<lambda>p. None), trace = []\<rparr>"

text \<open>A world in which the output path already holds an earlier recording.\<close>

definition earlier :: "int world" where
  "earlier = \<lparr>fs = [out_wav \<mapsto> File (Sound 24000 chunk_b)], trace = []\<rparr>"

text \<open>
  A host that is not Apple Silicon, on which every model loads and every write succeeds;
  style names are taken to be in normal form already.
\<close>

definition intel :: "int env" where
  "intel =
     \<lparr>machine = ascii ''x86_64'',
      mlx_load_model = (\<lambda>i. Inr two_chunks),
      soundfile_write = (\<lambda>file audio samplerate fsys. Written),
      style_normalize = (\<lambda>s. s),
      meta_ok = (\<lambda>ps. True)\<rparr>"



definition barred_fs :: "int filesystem" where
  "barred_fs = [Path (ascii ''voice.txt'') \<mapsto> Barred]"

definition notes_fs :: "int filesystem" where
  "notes_fs = [Path (ascii ''notes.txt'') \<mapsto> File (Text (ascii ''  calm voice '' @ [10]))]"

definition upper_fs :: "int filesystem" where
  "upper_fs = [Path (ascii ''notes.TXT'') \<mapsto> File (Text (ascii ''calm voice''))]"

definition binary_fs :: "int filesystem" where
  "binary_fs = [Path (ascii ''voice.txt'') \<mapsto> File Opaque]"

section \<open>Facts about the building blocks\<close>

lemma ascii_inj: "ascii a = ascii b \<longleftrightarrow> a = b"
  unfolding ascii_def by (simp add: inj_map_eq_map inj_of_char)

text \<open>The fixed lines of the script render on every console.\<close>

lemma markup_fixed [simp]:
  "\<not> markup_error env platform_warning"
  "\<not> markup_error env (ascii ''[bold red]Error:[/] No audio generated.'')"
  "\<not> markup_error env (ascii ''[bold green]Loading model'' @ ellipsis)"
  "\<not> markup_error env (ascii ''[bold green]Generating audio'' @ ellipsis)"
  by (simp_all add: markup_error_def platform_warning_def ascii_def ellipsis_def tag_start_def
      tag_of_def startswith_def meta_fails_def strip_def)

lemma markup_mode_lines [simp]:
  "\<not> markup_error env (ascii ''Mode [bold]clone[/] | model [bold]'' @
      ascii ''mlx-community/Qwen3-TTS-12Hz-0.6B-Base-bf16'' @ ascii ''[/]'')"
  "\<not> markup_error env (ascii ''Mode [bold]clone[/] | model [bold]'' @
      ascii ''mlx-community/Qwen3-TTS-12Hz-1.7B-Base-bf16'' @ ascii ''[/]'')"
  "\<not> markup_error env (ascii ''Mode [bold]design[/] | model [bold]'' @
      ascii ''mlx-community/Qwen3-TTS-12Hz-1.7B-VoiceDesign-bf16'' @ ascii ''[/]'')"
  by (simp_all add: markup_error_def ascii_def tag_start_def
      tag_of_def startswith_def meta_fails_def strip_def)

lemma consume_eq:
  "consume items acc w =
     ((case first_failure items of
         None \<Rightarrow> Inr (acc @ yielded items)
       | Some e \<Rightarrow> Inl (LibraryError e)),
      w\<lparr>trace := trace w @ replicate (length (yielded items)) NextChunk\<rparr>)"
proof (induction items arbitrary: acc w)
  case Nil
  show ?case by simp
next
  case (Cons item rest)
  show ?case
  proof (cases item)
    case (Yield a)
    then show ?thesis
      by (simp add: Cons.IH emit_def replicate_app_Cons_same split: option.splits)
  next
    case (Raise e)
    then show ?thesis by simp
  qed
qed




lemma np_concatenate_len:
  "np_concatenate arrays = Inr audio \<Longrightarrow> py_len audio = Inr (hd (shape audio))"
  by (auto simp: np_concatenate_def py_len_def split: list.splits if_splits)


lemma loaded_ids_append [simp]: "loaded_ids (xs @ ys) = loaded_ids xs @ loaded_ids ys"
  by (induction xs rule: loaded_ids.induct) simp_all

lemma generate_calls_append [simp]:
  "generate_calls (xs @ ys) = generate_calls xs @ generate_calls ys"
  by (induction xs rule: generate_calls.induct) simp_all

lemma loaded_ids_chunks [simp]: "loaded_ids (replicate n NextChunk) = []"
  by (induction n) simp_all

lemma generate_calls_chunks [simp]: "generate_calls (replicate n NextChunk) = []"
  by (induction n) simp_all

lemma filter_step_chunks [simp]:
  "filter is_step (replicate n NextChunk) = replicate n NextChunk"
  by (induction n) simp_all

lemma filter_loader_chunks [simp]: "filter is_loader_event (replicate n NextChunk) = []"
  by (induction n) simp_all

lemma check_apple_silicon_eq:
  "check_apple_silicon env w = (Inr (), w\<lparr>trace := trace w @ warning_events env\<rparr>)"
  by (simp add: check_apple_silicon_def warning_events_def console_print_def emit_def)



lemma and_then_check:
  "and_then (check_apple_silicon env) f w = f () (w\<lparr>trace := trace w @ warning_events env\<rparr>)"
  by (simp add: and_then_def check_apple_silicon_eq)


text \<open>The whole pipeline, case by case.\<close>

lemma generate_and_save_eq:
  "generate_and_save env model output kw w =
     (let t1 = trace w @
            [Status (ascii ''[bold green]Generating audio'' @ ellipsis), TimerStart, Generate kw] @
            replicate (length (yielded (model kw))) NextChunk;
          t2 = t1 @ [TimerStop, StatusDone, Concatenate, SfWrite output SAMPLE_RATE]
      in case first_failure (model kw) of
           Some e \<Rightarrow> (Inl (LibraryError e), w\<lparr>trace := t1 @ [StatusDone]\<rparr>)
         | None \<Rightarrow>
             if yielded (model kw) = []
             then (Inl (Exit 1),
                   w\<lparr>trace := t1 @ [TimerStop, StatusDone,
                      Print (ascii ''[bold red]Error:[/] No audio generated.'')]\<rparr>)
             else (case np_concatenate (yielded (model kw)) of
                     Inl e \<Rightarrow> (Inl e, w\<lparr>trace := t1 @ [TimerStop, StatusDone, Concatenate]\<rparr>)
                   | Inr audio \<Rightarrow>
                       (case soundfile_write env output audio SAMPLE_RATE (fs w) of
                          Refused e \<Rightarrow> (Inl e, w\<lparr>trace := t2\<rparr>)
                        | Damaged e c \<Rightarrow>
                            (Inl e, w\<lparr>fs := (fs w)(output \<mapsto> File c), trace := t2\<rparr>)
                        | Written \<Rightarrow>
                            if markup_error env (saved_markup output)
                            then (Inl MarkupError,
                                  w\<lparr>fs := (fs w)(output \<mapsto> File (Sound SAMPLE_RATE audio)),
                                    trace := t2\<rparr>)
                            else (Inr (),
                                  w\<lparr>fs := (fs w)(output \<mapsto> File (Sound SAMPLE_RATE audio)),
                                    trace := t2 @
                                      [Saved output
                                         (of_nat (hd (shape audio)) / of_nat SAMPLE_RATE)]\<rparr>))))"
proof (cases "first_failure (model kw)")
  case (Some e)
  then show ?thesis
    by (simp add: generate_and_save_def and_then_def console_status_def consume_eq emit_def)
next
  case None
  show ?thesis
  proof (cases "yielded (model kw) = []")
    case True
    with None show ?thesis
      by (simp add: generate_and_save_def and_then_def console_status_def consume_eq emit_def
          console_print_def pure_def)
  next
    case False
    show ?thesis
    proof (cases "np_concatenate (yielded (model kw))")
      case (Inl e)
      with None False show ?thesis
        by (simp add: generate_and_save_def and_then_def console_status_def consume_eq emit_def)
    next
      case (Inr audio)
      with None False np_concatenate_len [OF Inr] show ?thesis
        by (simp add: generate_and_save_def and_then_def console_status_def consume_eq emit_def
            sf_write_def print_saved_def pure_def Let_def split: write_outcome.splits)
    qed
  qed
qed



lemma saved_out_wav [simp]: "\<not> markup_error env (saved_markup out_wav)"
  by (simp add: saved_markup_def out_wav_def str_path_def markup_error_def ascii_def tag_start_def
      tag_of_def startswith_def meta_fails_def strip_def)

lemma joined_two: "np_concatenate [chunk_a, chunk_b] = Inr \<lparr>shape = [3], data = [1, 2, 3]\<rparr>"
  by (simp add: np_concatenate_def chunk_a_def chunk_b_def)

section \<open>The generation pipeline\<close>



text \<open>
  C2. When generation yields no chunk at all, the pipeline prints the error line and
  raises \<open>typer.Exit(1)\<close>; no file is created or changed, at the output path or anywhere.
\<close>

theorem empty_generation:
  assumes "model gen_kwargs = []"
  shows "generate_and_save env model output gen_kwargs w =
     (Inl (Exit 1),
      w\<lparr>trace := trace w @
         [Status (ascii ''[bold green]Generating audio'' @ ellipsis), TimerStart,
          Generate gen_kwargs, TimerStop, StatusDone,
          Print (ascii ''[bold red]Error:[/] No audio generated.'')]\<rparr>)
     \<and> fs (snd (generate_and_save env model output gen_kwargs w)) = fs w"
  by (simp add: generate_and_save_eq assms)

theorem empty_generation_witness:
  "no_chunks [] = [] \<and>
   fst (generate_and_save intel no_chunks out_wav [] earlier) = Inl (Exit 1) \<and>
   fs (snd (generate_and_save intel no_chunks out_wav [] earlier)) = fs earlier \<and>
   fs earlier out_wav = Some (File (Sound 24000 chunk_b))"
  using empty_generation [of no_chunks "[]" intel out_wav earlier]
  by (simp add: no_chunks_def earlier_def)



section \<open>The input resolver\<close>

lemma rfind_None: "c \<notin> set ys \<Longrightarrow> rfind c ys = None"
  by (induction ys) auto

lemma rfind_last: "c \<notin> set ys \<Longrightarrow> rfind c (xs @ c # ys) = Some (length xs)"
  by (induction xs) (auto simp: rfind_None)

lemma suffix_txt_iff:
  "suffix p = ascii ''.txt'' \<longleftrightarrow> (\<exists>stem. stem \<noteq> [] \<and> name p = stem @ ascii ''.txt'')"
proof
  assume "suffix p = ascii ''.txt''"
  then obtain i where i: "0 < i" "i < length (name p) - 1" "drop i (name p) = ascii ''.txt''"
    by (auto simp: suffix_def Let_def ascii_def split: option.splits if_splits)
  have "name p = take i (name p) @ drop i (name p)" by simp
  moreover have "take i (name p) \<noteq> []" using i by auto
  ultimately show "\<exists>stem. stem \<noteq> [] \<and> name p = stem @ ascii ''.txt''"
    using i(3) by metis
next
  assume "\<exists>stem. stem \<noteq> [] \<and> name p = stem @ ascii ''.txt''"
  then obtain stem where s: "stem \<noteq> []" "name p = stem @ ascii ''.txt''" by blast
  have "rfind dot (stem @ dot # ascii ''txt'') = Some (length stem)"
    by (rule rfind_last) (simp add: ascii_def dot_def)
  moreover have "ascii ''.txt'' = dot # ascii ''txt''" by (simp add: ascii_def dot_def)
  ultimately have "rfind dot (name p) = Some (length stem)" using s(2) by simp
  then show "suffix p = ascii ''.txt''"
    using s by (simp add: suffix_def Let_def ascii_def)
qed

lemma Path_notes: "Path (ascii ''notes.txt'') = PosixPath [] [ascii ''notes.txt'']"
  by (simp add: Path_def root_of_def ascii_def sep_def dot_def)

lemma Path_NOTES: "Path (ascii ''notes.TXT'') = PosixPath [] [ascii ''notes.TXT'']"
  by (simp add: Path_def root_of_def ascii_def sep_def dot_def)

lemma Path_voice: "Path (ascii ''voice.txt'') = PosixPath [] [ascii ''voice.txt'']"
  by (simp add: Path_def root_of_def ascii_def sep_def dot_def)

lemma suffix_notes: "suffix (PosixPath [] [ascii ''notes.txt'']) = ascii ''.txt''"
  by (simp add: suffix_def name_def ascii_def dot_def)

lemma suffix_NOTES: "suffix (PosixPath [] [ascii ''notes.TXT'']) = ascii ''.TXT''"
  by (simp add: suffix_def name_def ascii_def dot_def)

lemma suffix_voice: "suffix (PosixPath [] [ascii ''voice.txt'']) = ascii ''.txt''"
  by (simp add: suffix_def name_def ascii_def dot_def)

lemma strip_example: "strip (ascii ''  calm voice '' @ [10]) = ascii ''calm voice''"
  by (simp add: strip_def ascii_def isspace_def)


text \<open>
  C4, as the code has it. A value with the suffix \<open>.txt\<close> that names a file holding text
  resolves to that text, stripped. A value without that suffix, or one for which the
  existence check answers that no file is there, resolves to itself. The resolver raises
  only for a value with the suffix, and then exactly when the existence check raises or
  the file is there and reading it as text raises; it raises that same error.
\<close>

theorem resolve_cases:
  "(suffix (Path val) = ascii ''.txt'' \<and> fsys (Path val) = Some (File (Text s)) \<longrightarrow>
      read_file_or_string fsys val = Inr (strip s)) \<and>
   (suffix (Path val) \<noteq> ascii ''.txt'' \<or> is_file fsys (Path val) = Inr False \<longrightarrow>
      read_file_or_string fsys val = Inr val) \<and>
   (read_file_or_string fsys val = Inl e \<longleftrightarrow>
      suffix (Path val) = ascii ''.txt'' \<and>
      (is_file fsys (Path val) = Inl e \<or>
       is_file fsys (Path val) = Inr True \<and> read_text fsys (Path val) = Inl e))"
  by (auto simp: read_file_or_string_def Let_def is_file_def read_text_def
      split: option.splits node.splits content.splits sum.splits)

theorem resolve_cases_witness:
  "suffix (Path (ascii ''notes.txt'')) = ascii ''.txt'' \<and>
   notes_fs (Path (ascii ''notes.txt'')) = Some (File (Text (ascii ''  calm voice '' @ [10]))) \<and>
   read_file_or_string notes_fs (ascii ''notes.txt'') = Inr (ascii ''calm voice'') \<and>
   is_file notes_fs (Path (ascii ''voice.txt'')) = Inr False \<and>
   read_file_or_string notes_fs (ascii ''voice.txt'') = Inr (ascii ''voice.txt'')"
proof -
  have there: "notes_fs (Path (ascii ''notes.txt'')) =
      Some (File (Text (ascii ''  calm voice '' @ [10])))"
    by (simp add: notes_fs_def)
  have absent: "is_file notes_fs (Path (ascii ''voice.txt'')) = Inr False"
    by (simp add: notes_fs_def is_file_def Path_notes Path_voice ascii_inj)
  show ?thesis
    using resolve_cases [of "ascii ''notes.txt''" notes_fs "ascii ''  calm voice '' @ [10]"]
      resolve_cases [of "ascii ''voice.txt''" notes_fs]
      there absent
    by (simp add: Path_notes suffix_notes strip_example)
qed

text \<open>
  C4, as the specification states it, fails: for a file with the suffix \<open>.txt\<close> whose
  bytes do not decode, the resolver neither returns the contents nor the value, the
  decoding error of \<open>read_text()\<close> leaves it; and for a path that cannot be examined the
  error of the existence check leaves it.
\<close>

theorem resolve_raises_on_undecodable_file:
  "suffix (Path (ascii ''voice.txt'')) = ascii ''.txt'' \<and>
   is_file binary_fs (Path (ascii ''voice.txt'')) = Inr True \<and>
   read_file_or_string binary_fs (ascii ''voice.txt'') = Inl UnicodeDecodeError \<and>
   is_file barred_fs (Path (ascii ''voice.txt'')) = Inl OSError \<and>
   read_file_or_string barred_fs (ascii ''voice.txt'') = Inl OSError"
  by (simp add: read_file_or_string_def Let_def Path_voice suffix_voice binary_fs_def
      barred_fs_def is_file_def read_text_def)

text \<open>
  C9. A value whose path suffix is not exactly \<open>.txt\<close> is returned as it is, whatever the
  filesystem holds; and the suffix is \<open>.txt\<close> exactly when the last path component is a
  non-empty stem followed by these four characters, in lower case.
\<close>

theorem only_txt_suffix:
  "(suffix (Path val) \<noteq> ascii ''.txt'' \<longrightarrow> read_file_or_string fsys val = Inr val) \<and>
   (suffix (Path val) = ascii ''.txt'' \<longleftrightarrow>
      (\<exists>stem. stem \<noteq> [] \<and> name (Path val) = stem @ ascii ''.txt''))"
proof
  show "suffix (Path val) \<noteq> ascii ''.txt'' \<longrightarrow> read_file_or_string fsys val = Inr val"
    by (simp add: read_file_or_string_def Let_def)
  show "suffix (Path val) = ascii ''.txt'' \<longleftrightarrow>
      (\<exists>stem. stem \<noteq> [] \<and> name (Path val) = stem @ ascii ''.txt'')"
    by (rule suffix_txt_iff)
qed

theorem only_txt_suffix_witness:
  "suffix (Path (ascii ''notes.TXT'')) = ascii ''.TXT'' \<and>
   suffix (Path (ascii ''notes.TXT'')) \<noteq> ascii ''.txt'' \<and>
   upper_fs (Path (ascii ''notes.TXT'')) = Some (File (Text (ascii ''calm voice''))) \<and>
   read_file_or_string upper_fs (ascii ''notes.TXT'') = Inr (ascii ''notes.TXT'')"
proof -
  have "upper_fs (Path (ascii ''notes.TXT'')) = Some (File (Text (ascii ''calm voice'')))"
    by (simp add: upper_fs_def)
  then show ?thesis
    using only_txt_suffix [of "ascii ''notes.TXT''" upper_fs]
    by (simp add: Path_NOTES suffix_NOTES ascii_inj)
qed

section \<open>The clone command\<close>





section \<open>The order of the pipeline's steps\<close>

text \<open>
  C6, as the code has it. When the generator finishes after at least one chunk, the
  steps are: start the timer, take the chunks, stop the timer, concatenate, and, when the
  chunks join, write the file at the sample rate. The timer is stopped before the
  concatenation: the measured time covers generation only.
\<close>

theorem timer_stops_before_concatenation:
  assumes "first_failure (model kw) = None" and "yielded (model kw) \<noteq> []"
  shows "pipeline_steps (trace (snd (generate_and_save env model output kw w))) =
     pipeline_steps (trace w) @ [TimerStart] @
     replicate (length (yielded (model kw))) NextChunk @ [TimerStop, Concatenate] @
     (case np_concatenate (yielded (model kw)) of
        Inl e \<Rightarrow> []
      | Inr audio \<Rightarrow> [SfWrite output SAMPLE_RATE])"
  using assms
  by (simp add: generate_and_save_eq Let_def pipeline_steps_def
      split: sum.splits write_outcome.splits)

theorem timer_stops_before_concatenation_witness:
  "first_failure (two_chunks []) = None \<and> yielded (two_chunks []) = [chunk_a, chunk_b] \<and>
   pipeline_steps (trace (snd (generate_and_save intel two_chunks out_wav [] blank))) =
     [TimerStart, NextChunk, NextChunk, TimerStop, Concatenate, SfWrite out_wav 24000]"
proof -
  have gen: "first_failure (two_chunks []) = None" "yielded (two_chunks []) = [chunk_a, chunk_b]"
    by (simp_all add: two_chunks_def)
  show ?thesis
    using timer_stops_before_concatenation [of two_chunks "[]" intel out_wav blank] gen
    by (simp add: joined_two blank_def pipeline_steps_def SAMPLE_RATE_def)
qed

text \<open>
  C6, as the specification states it, fails: on two chunks the steps of the run are not
  in the order concatenate, stop the timer, write.
\<close>

theorem timer_order_differs_from_spec:
  "pipeline_steps (trace (snd (generate_and_save intel two_chunks out_wav [] blank))) =
     [TimerStart, NextChunk, NextChunk, TimerStop, Concatenate, SfWrite out_wav 24000] \<and>
   spec_step_order 2 out_wav =
     [TimerStart, NextChunk, NextChunk, Concatenate, TimerStop, SfWrite out_wav 24000] \<and>
   pipeline_steps (trace (snd (generate_and_save intel two_chunks out_wav [] blank))) \<noteq>
     spec_step_order 2 out_wav"
proof -
  have gen: "first_failure (two_chunks []) = None" "yielded (two_chunks []) = [chunk_a, chunk_b]"
    by (simp_all add: two_chunks_def)
  have run: "pipeline_steps (trace (snd (generate_and_save intel two_chunks out_wav [] blank))) =
     [TimerStart, NextChunk, NextChunk, TimerStop, Concatenate, SfWrite out_wav 24000]"
    by (simp add: generate_and_save_eq gen joined_two Let_def blank_def pipeline_steps_def
        SAMPLE_RATE_def intel_def)
  have spec: "spec_step_order 2 out_wav =
     [TimerStart, NextChunk, NextChunk, Concatenate, TimerStop, SfWrite out_wav 24000]"
    by (simp add: spec_step_order_def numeral_2_eq_2)
  show ?thesis
    by (simp add: run spec)
qed

section \<open>The registry\<close>






section \<open>The custom command\<close>

lemma instruct_text_of_eq:
  "instruct_text_of env instruct w =
     (case instruct of
        None \<Rightarrow> (Inr PyNone, w)
      | Some s \<Rightarrow>
          if s = [] then (Inr PyNone, w)
          else (case read_file_or_string (fs w) s of
                  Inl e \<Rightarrow> (Inl e, w)
                | Inr r \<Rightarrow>
                    if markup_error env (instruct_line r) then (Inl MarkupError, w)
                    else (Inr (PyStr r), w\<lparr>trace := trace w @ [Print (instruct_line r)]\<rparr>)))"
  by (simp add: instruct_text_of_def pure_def and_then_def console_print_def emit_def
      split: option.splits sum.splits)



lemma aiden_mode_line [simp]:
  "\<not> markup_error env
     (custom_mode_line (ascii ''mlx-community/Qwen3-TTS-12Hz-1.7B-CustomVoice-bf16'')
        (ascii ''Aiden''))"
  by (simp add: custom_mode_line_def markup_error_def ascii_def tag_start_def tag_of_def
      startswith_def meta_fails_def strip_def)



section \<open>The platform check\<close>

lemma world_eq_trace: "fs (w' :: 's world) = fs w \<Longrightarrow> w' = w\<lparr>trace := trace w'\<rparr>"
  by (cases w, cases w') simp

lemma blind_and_then:
  assumes "blind p" and "\<And>x. blind (f x)"
  shows "blind (and_then p f)"
  unfolding blind_def
proof (intro allI)
  fix w :: "'a world" and t
  obtain r w1 where pw: "p w = (r, w1)" by (cases "p w")
  obtain r' w1' where pw': "p (w\<lparr>trace := t\<rparr>) = (r', w1')" by (cases "p (w\<lparr>trace := t\<rparr>)")
  from assms(1) pw pw' have rr: "r' = r" and ff: "fs w1' = fs w1"
    unfolding blind_def by (metis fst_conv, metis snd_conv)
  from ff have w1': "w1' = w1\<lparr>trace := trace w1'\<rparr>" by (rule world_eq_trace)
  show "fst (and_then p f (w\<lparr>trace := t\<rparr>)) = fst (and_then p f w) \<and>
        fs (snd (and_then p f (w\<lparr>trace := t\<rparr>))) = fs (snd (and_then p f w))"
  proof (cases r)
    case (Inl e)
    then show ?thesis by (simp add: and_then_def pw pw' rr ff)
  next
    case (Inr x)
    from assms(2) [of x] have
      "fst (f x (w1\<lparr>trace := trace w1'\<rparr>)) = fst (f x w1) \<and>
       fs (snd (f x (w1\<lparr>trace := trace w1'\<rparr>))) = fs (snd (f x w1))"
      unfolding blind_def by blast
    with w1' have "fst (f x w1') = fst (f x w1) \<and> fs (snd (f x w1')) = fs (snd (f x w1))"
      by simp
    with Inr show ?thesis by (simp add: and_then_def pw pw' rr)
  qed
qed

lemma blind_if: "blind p \<Longrightarrow> blind q \<Longrightarrow> blind (if c then p else q)"
  by simp

lemma blind_pure: "blind (pure r)"
  by (simp add: blind_def pure_def)

lemma blind_console_print: "blind (console_print env s)"
  by (simp add: blind_def console_print_def emit_def)

lemma blind_load_model: "blind (load_model env model_id)"
  by (simp add: blind_def load_model_def and_then_def console_status_def emit_def)

lemma blind_resolve: "blind (\<lambda>w. (read_file_or_string (fs w) v, w))"
  by (simp add: blind_def)

lemma blind_is_file: "blind (\<lambda>w. (is_file (fs w) p, w))"
  by (simp add: blind_def)

lemma blind_generate_and_save: "blind (generate_and_save env model output kw)"
  by (simp add: blind_def generate_and_save_eq Let_def
      split: option.splits sum.splits write_outcome.splits)

lemma blind_instruct_text_of: "blind (instruct_text_of env instruct)"
  by (simp add: blind_def instruct_text_of_eq split: option.splits sum.splits)

text \<open>Nothing but the platform check looks at the machine string.\<close>

lemma render_tags_machine:
  "render_tags (env\<lparr>machine := m\<rparr>) stack ts = render_tags env stack ts"
  by (induction ts arbitrary: stack)
     (simp_all add: meta_fails_def Let_def split: option.splits prod.splits)

lemma markup_error_machine: "markup_error (env\<lparr>machine := m\<rparr>) = markup_error env"
  by (intro ext) (simp add: markup_error_def render_tags_machine)

lemma console_print_machine: "console_print (env\<lparr>machine := m\<rparr>) = console_print env"
  by (intro ext) (simp add: console_print_def markup_error_machine)

lemma console_status_machine: "console_status (env\<lparr>machine := m\<rparr>) = console_status env"
  by (intro ext) (simp add: console_status_def markup_error_machine)

lemma print_saved_machine: "print_saved (env\<lparr>machine := m\<rparr>) = print_saved env"
  by (intro ext) (simp add: print_saved_def markup_error_machine)

lemma sf_write_machine: "sf_write (env\<lparr>machine := m\<rparr>) = sf_write env"
  by (intro ext) (simp add: sf_write_def)

lemma mlx_load_model_machine: "mlx_load_model (env\<lparr>machine := m\<rparr>) = mlx_load_model env"
  by simp

lemma load_model_machine: "load_model (env\<lparr>machine := m\<rparr>) = load_model env"
  unfolding load_model_def console_status_machine mlx_load_model_machine
  by (rule refl)

lemma generate_and_save_machine:
  "generate_and_save (env\<lparr>machine := m\<rparr>) = generate_and_save env"
  unfolding generate_and_save_def console_status_machine console_print_machine
    sf_write_machine print_saved_machine
  by (rule refl)

lemma instruct_text_of_machine:
  "instruct_text_of (env\<lparr>machine := m\<rparr>) = instruct_text_of env"
  unfolding instruct_text_of_def console_print_machine
  by (rule refl)

lemma check_then_machine:
  assumes "blind k"
  shows "fst (and_then (check_apple_silicon (env\<lparr>machine := m\<rparr>)) (\<lambda>_. k) w) =
         fst (and_then (check_apple_silicon env) (\<lambda>_. k) w)"
  using assms by (simp add: and_then_check blind_def)

lemma clone_machine:
  "fst (clone (env\<lparr>machine := m\<rparr>) input_text ref_audio ref_text output model_size w) =
   fst (clone env input_text ref_audio ref_text output model_size w)"
  unfolding clone_def load_model_machine generate_and_save_machine console_print_machine
  by (rule check_then_machine)
     (intro blind_and_then blind_if blind_pure blind_console_print blind_load_model
        blind_generate_and_save blind_is_file)

lemma design_machine:
  "fst (design (env\<lparr>machine := m\<rparr>) input_text voice language output w) =
   fst (design env input_text voice language output w)"
  unfolding design_def load_model_machine generate_and_save_machine console_print_machine
  by (rule check_then_machine)
     (intro blind_and_then blind_pure blind_console_print blind_load_model
        blind_generate_and_save blind_resolve)

lemma custom_machine:
  "fst (custom (env\<lparr>machine := m\<rparr>) input_text speaker instruct language output model_size w) =
   fst (custom env input_text speaker instruct language output model_size w)"
  unfolding custom_def load_model_machine generate_and_save_machine console_print_machine
    instruct_text_of_machine
  by (rule check_then_machine)
     (intro blind_and_then blind_pure blind_console_print blind_load_model
        blind_generate_and_save blind_instruct_text_of)

text \<open>
  C10. On every host the platform check returns normally; it changes no file and adds
  to the console the warning, or nothing when the machine is \<open>arm64\<close> or \<open>aarch64\<close>. The
  outcome of each of the three commands is therefore the same on every machine string.
\<close>

theorem platform_check_never_aborts:
  "check_apple_silicon env w = (Inr (), w\<lparr>trace := trace w @ warning_events env\<rparr>) \<and>
   fst (clone (env\<lparr>machine := m\<rparr>) input_text ref_audio ref_text output model_size w) =
     fst (clone env input_text ref_audio ref_text output model_size w) \<and>
   fst (design (env\<lparr>machine := m\<rparr>) input_text voice language output w) =
     fst (design env input_text voice language output w) \<and>
   fst (custom (env\<lparr>machine := m\<rparr>) input_text speaker instruct language output model_size w) =
     fst (custom env input_text speaker instruct language output model_size w)"
  by (simp only: check_apple_silicon_eq clone_machine design_machine custom_machine)

theorem platform_check_never_aborts_witness:
  "check_apple_silicon intel blank = (Inr (), \<lparr>fs = fs blank, trace = [Print platform_warning]\<rparr>) \<and>
   check_apple_silicon (intel\<lparr>machine := ascii ''arm64''\<rparr>) blank = (Inr (), blank) \<and>
   fst (clone (intel\<lparr>machine := ascii ''arm64''\<rparr>) (ascii ''Hello'') ref_wav (ascii ''Hi'')
          out_wav large blank) =
     fst (clone intel (ascii ''Hello'') ref_wav (ascii ''Hi'') out_wav large blank)"
proof -
  have host: "warning_events intel = [Print platform_warning]"
    by (simp add: warning_events_def intel_def ascii_inj)
  have arm: "warning_events (intel\<lparr>machine := ascii ''arm64''\<rparr>) = []"
    by (simp add: warning_events_def)
  show ?thesis
    using platform_check_never_aborts [of intel blank "ascii ''arm64''" "ascii ''Hello''" ref_wav
        "ascii ''Hi''" out_wav large "ascii ''A warm voice''" "ascii ''English''"
        "ascii ''Aiden''" None]
      platform_check_never_aborts [of "intel\<lparr>machine := ascii ''arm64''\<rparr>" blank
        "ascii ''arm64''" "ascii ''Hello''" ref_wav
        "ascii ''Hi''" out_wav large "ascii ''A warm voice''" "ascii ''English''"
        "ascii ''Aiden''" None]
    by (simp add: host arm blank_def)
qed

end
